theory Spec2Isabelle
  imports Complex_Main "HOL-Library.Sublist"
begin

section \<open>State construction from labels (libpairinteraction/SystemBase.cpp)\<close>

text \<open>
  The file \<^verbatim>\<open>SystemBase.cpp\<close> holds the two explicit specialisations of
  \<^verbatim>\<open>SystemBase<T>::createStateFromLabel\<close>:
  \<^verbatim>\<open>
  StateOne SystemBase<StateOne>::createStateFromLabel(std::string label) {
      return StateOne(label);
  }
  StateTwo SystemBase<StateTwo>::createStateFromLabel(std::string label) {
      return StateTwo({{"0_" + label, "1_" + label}});
  }
  \<close>
  A \<^verbatim>\<open>std::string\<close> is a \<^typ>\<open>string\<close>, and \<^verbatim>\<open>+\<close> on strings is \<open>@\<close>.
  The classes \<^verbatim>\<open>StateOne\<close> and \<^verbatim>\<open>StateTwo\<close> are declared in a header that
  this development does not cover; the two constructors used here are kept as free
  constructors: a state built from a label is identified by that label, a pair state built
  from a \<^verbatim>\<open>std::array<std::string, 2>\<close> by the two labels, in array order.
\<close>

datatype StateOne = StateOne string

datatype StateTwo = StateTwo "string \<times> string"

definition createStateFromLabel_StateOne :: "string \<Rightarrow> StateOne" where
  "createStateFromLabel_StateOne label = StateOne label"

definition createStateFromLabel_StateTwo :: "string \<Rightarrow> StateTwo" where
  "createStateFromLabel_StateTwo label = StateTwo (''0_'' @ label, ''1_'' @ label)"

text \<open>Reading a state back: the label of a single-atom state, and the two labels of a
  pair state as a list, element \<open>k\<close> of the list being element \<open>k\<close> of the array.\<close>

fun getLabel :: "StateOne \<Rightarrow> string" where
  "getLabel (StateOne label) = label"

fun seed_labels :: "StateTwo \<Rightarrow> string list" where
  "seed_labels (StateTwo (a, b)) = [a, b]"

text \<open>A per-atom label has the shape \<^verbatim>\<open><index>_<label>\<close>. The index is what stands
  before the first underscore, the base label what stands after it.\<close>

definition atom_index :: "string \<Rightarrow> string" where
  "atom_index l = takeWhile (\<lambda>c. c \<noteq> CHR ''_'') l"

definition base_label :: "string \<Rightarrow> string" where
  "base_label l = drop 1 (dropWhile (\<lambda>c. c \<noteq> CHR ''_'') l)"


section \<open>Basis Builder and Matrix Element Cache\<close>

text \<open>
  The basis builder and the matrix element cache are code of the library that this
  development does not cover (only their callers in the example notebooks are). The
  definitions of this section follow the specification's description of them.
\<close>

subsection \<open>Basis Builder\<close>

text \<open>Modelled from the spec: the single-atom quantum state (the fields of the class
  StateOne, whose header is missing): species identifier, principal quantum number n,
  orbital angular momentum l, total angular momentum j, magnetic quantum number m.\<close>

record QuantumState =
  species :: string
  principal_n :: int
  orbital_l :: int
  total_j :: real
  magnetic_m :: real

text \<open>Modelled from the spec: the restriction predicate (set by the missing restrictEnergy,
  restrictN, restrictL, restrictJ, restrictM), one of: energy window [Emin, Emax],
  n window, l window, j window, m window.\<close>

datatype Restriction =
    EnergyWindow real real
  | NWindow int int
  | LWindow int int
  | JWindow real real
  | MWindow real real

text \<open>Modelled from the spec: when a state satisfies one restriction predicate (the missing
  window tests of the basis builder). A window contains its bounds. The energy of a state
  comes from the atomic data provider, an external collaborator, and is a parameter.\<close>

fun satisfies :: "(QuantumState \<Rightarrow> real) \<Rightarrow> Restriction \<Rightarrow> QuantumState \<Rightarrow> bool" where
  "satisfies energy (EnergyWindow lo hi) s = (lo \<le> energy s \<and> energy s \<le> hi)"
| "satisfies energy (NWindow lo hi) s = (lo \<le> principal_n s \<and> principal_n s \<le> hi)"
| "satisfies energy (LWindow lo hi) s = (lo \<le> orbital_l s \<and> orbital_l s \<le> hi)"
| "satisfies energy (JWindow lo hi) s = (lo \<le> total_j s \<and> total_j s \<le> hi)"
| "satisfies energy (MWindow lo hi) s = (lo \<le> magnetic_m s \<and> magnetic_m s \<le> hi)"

text \<open>Modelled from the spec: the missing basis builder tells the energy window, which
  needs the costly energy evaluation, from the cheap quantum-number windows.\<close>

fun is_energy_window :: "Restriction \<Rightarrow> bool" where
  "is_energy_window (EnergyWindow lo hi) = True"
| "is_energy_window r = False"

text \<open>Modelled from the spec: multiple predicates compose conjunctively (the missing
  combination of the active restrictions of a System).\<close>

definition satisfies_all ::
  "(QuantumState \<Rightarrow> real) \<Rightarrow> Restriction list \<Rightarrow> QuantumState \<Rightarrow> bool" where
  "satisfies_all energy rs s = list_all (\<lambda>r. satisfies energy r s) rs"

text \<open>Modelled from the spec: the missing buildSingleAtomBasis. Of the combinatorially
  generated candidate states it keeps those within the n/l/j/m windows, then filters by
  the energy window (the cheap integer-range filters before the costlier energy
  evaluation), and returns an ordered, deduplicated basis; the order is by unperturbed
  energy. The candidate states are a parameter: the specification does not say more about
  their generation than that it is bounded.\<close>

definition buildSingleAtomBasis ::
  "(QuantumState \<Rightarrow> real) \<Rightarrow> QuantumState list \<Rightarrow> Restriction list \<Rightarrow> QuantumState list"
  where
  "buildSingleAtomBasis energy candidates restrictions =
     (let in_range = filter
            (satisfies_all energy (filter (\<lambda>r. \<not> is_energy_window r) restrictions))
            candidates;
          in_energy = filter
            (satisfies_all energy (filter is_energy_window restrictions)) in_range
      in sort_key energy (remdups in_energy))"

subsection \<open>Matrix Element Cache\<close>








section \<open>Properties of createStateFromLabel\<close>

text \<open>
  C1, as stated: the two component labels of the pair state built from \<open>s\<close> carry 1-based
  atom indices, that is, the indices 1 and 2. This fails: for the label \<open>x\<close> the indices
  are 0 and 1.
\<close>

theorem createStateFromLabel_StateTwo_not_one_based:
  "map atom_index (seed_labels (createStateFromLabel_StateTwo ''x'')) = [''0'', ''1'']
   \<and> map atom_index (seed_labels (createStateFromLabel_StateTwo ''x'')) \<noteq> [''1'', ''2'']"
  by (simp add: createStateFromLabel_StateTwo_def atom_index_def)

text \<open>
  C1, amended: for every label \<open>s\<close>, the pair state built from \<open>s\<close> is seeded by the
  two labels \<open>0_s\<close> and \<open>1_s\<close>, whose atom indices are 0-based (0 for the first atom,
  1 for the second), and the pair is symmetric: both labels carry the same base label
  \<open>s\<close>.
\<close>

theorem createStateFromLabel_StateTwo_zero_based:
  "seed_labels (createStateFromLabel_StateTwo s) = [''0_'' @ s, ''1_'' @ s]
   \<and> map atom_index (seed_labels (createStateFromLabel_StateTwo s)) = [''0'', ''1'']
   \<and> map base_label (seed_labels (createStateFromLabel_StateTwo s)) = [s, s]"
  by (simp add: createStateFromLabel_StateTwo_def atom_index_def base_label_def)

text \<open>
  C9: for every label \<open>s\<close>, the single-atom state built by createStateFromLabel is the
  state constructed directly from \<open>s\<close>; the label reaches the constructor unchanged.
\<close>

theorem createStateFromLabel_StateOne_direct:
  "createStateFromLabel_StateOne s = StateOne s
   \<and> getLabel (createStateFromLabel_StateOne s) = s"
  by (simp add: createStateFromLabel_StateOne_def)

text \<open>
  C10: for every label \<open>s\<close>, the pair state is seeded from exactly the two labels
  \<open>0_s\<close> and \<open>1_s\<close>. Both end in \<open>s\<close>, they agree after their first character, and they
  differ in that first character, which is \<open>0\<close> for the first atom and \<open>1\<close> for the second.
\<close>

theorem createStateFromLabel_StateTwo_labels:
  "createStateFromLabel_StateTwo s = StateTwo (''0_'' @ s, ''1_'' @ s)
   \<and> seed_labels (createStateFromLabel_StateTwo s) = [''0_'' @ s, ''1_'' @ s]
   \<and> length (seed_labels (createStateFromLabel_StateTwo s)) = 2
   \<and> suffix s (seed_labels (createStateFromLabel_StateTwo s) ! 0)
   \<and> suffix s (seed_labels (createStateFromLabel_StateTwo s) ! 1)
   \<and> tl (seed_labels (createStateFromLabel_StateTwo s) ! 0)
       = tl (seed_labels (createStateFromLabel_StateTwo s) ! 1)
   \<and> hd (seed_labels (createStateFromLabel_StateTwo s) ! 0) = CHR ''0''
   \<and> hd (seed_labels (createStateFromLabel_StateTwo s) ! 1) = CHR ''1''
   \<and> seed_labels (createStateFromLabel_StateTwo s) ! 0
       \<noteq> seed_labels (createStateFromLabel_StateTwo s) ! 1"
  by (simp add: createStateFromLabel_StateTwo_def suffix_def)

section \<open>Properties of the Matrix Element Cache\<close>










section \<open>Properties of the Basis Builder\<close>

lemma satisfies_all_split:
  "satisfies_all energy rs s \<longleftrightarrow>
     satisfies_all energy (filter (\<lambda>r. \<not> is_energy_window r) rs) s
     \<and> satisfies_all energy (filter is_energy_window rs) s"
  by (induction rs) (auto simp: satisfies_all_def)

lemma set_buildSingleAtomBasis:
  "set (buildSingleAtomBasis energy cands rs) = {s \<in> set cands. satisfies_all energy rs s}"
  unfolding buildSingleAtomBasis_def Let_def
  using satisfies_all_split [of energy rs] by auto

lemma distinct_buildSingleAtomBasis: "distinct (buildSingleAtomBasis energy cands rs)"
  by (simp add: buildSingleAtomBasis_def Let_def)

text \<open>
  C5: for every list of active restriction windows, every state of the basis satisfies
  every active predicate, and no candidate state that satisfies all of them is missing
  from the basis. The basis holds candidate states only, each once.
\<close>

theorem buildSingleAtomBasis_sound_complete:
  "(\<forall>s \<in> set (buildSingleAtomBasis energy cands rs). \<forall>r \<in> set rs. satisfies energy r s)
   \<and> (\<forall>s \<in> set cands. (\<forall>r \<in> set rs. satisfies energy r s)
         \<longrightarrow> s \<in> set (buildSingleAtomBasis energy cands rs))
   \<and> set (buildSingleAtomBasis energy cands rs) \<subseteq> set cands
   \<and> distinct (buildSingleAtomBasis energy cands rs)"
proof -
  have all: "satisfies_all energy rs s \<longleftrightarrow> (\<forall>r \<in> set rs. satisfies energy r s)" for s
    by (simp add: satisfies_all_def list_all_iff)
  show ?thesis
    using distinct_buildSingleAtomBasis [of energy cands rs]
    by (auto simp: set_buildSingleAtomBasis all)
qed

theorem buildSingleAtomBasis_sound_complete_witness:
  "satisfies (\<lambda>s. real_of_int (principal_n s)) (NWindow 67 71)
      \<lparr>species = ''Rb'', principal_n = 69, orbital_l = 0, total_j = 1/2, magnetic_m = 1/2\<rparr>
   \<and> satisfies (\<lambda>s. real_of_int (principal_n s)) (EnergyWindow 60 75)
      \<lparr>species = ''Rb'', principal_n = 69, orbital_l = 0, total_j = 1/2, magnetic_m = 1/2\<rparr>
   \<and> \<lparr>species = ''Rb'', principal_n = 69, orbital_l = 0, total_j = 1/2, magnetic_m = 1/2\<rparr>
      \<in> set (buildSingleAtomBasis (\<lambda>s. real_of_int (principal_n s))
          [\<lparr>species = ''Rb'', principal_n = 69, orbital_l = 0, total_j = 1/2, magnetic_m = 1/2\<rparr>,
           \<lparr>species = ''Rb'', principal_n = 80, orbital_l = 0, total_j = 1/2, magnetic_m = 1/2\<rparr>]
          [NWindow 67 71, EnergyWindow 60 75])
   \<and> \<not> satisfies (\<lambda>s. real_of_int (principal_n s)) (NWindow 67 71)
      \<lparr>species = ''Rb'', principal_n = 80, orbital_l = 0, total_j = 1/2, magnetic_m = 1/2\<rparr>
   \<and> \<lparr>species = ''Rb'', principal_n = 80, orbital_l = 0, total_j = 1/2, magnetic_m = 1/2\<rparr>
      \<notin> set (buildSingleAtomBasis (\<lambda>s. real_of_int (principal_n s))
          [\<lparr>species = ''Rb'', principal_n = 69, orbital_l = 0, total_j = 1/2, magnetic_m = 1/2\<rparr>,
           \<lparr>species = ''Rb'', principal_n = 80, orbital_l = 0, total_j = 1/2, magnetic_m = 1/2\<rparr>]
          [NWindow 67 71, EnergyWindow 60 75])"
  using buildSingleAtomBasis_sound_complete [of "\<lambda>s. real_of_int (principal_n s)"
      "[\<lparr>species = ''Rb'', principal_n = 69, orbital_l = 0, total_j = 1/2, magnetic_m = 1/2\<rparr>,
        \<lparr>species = ''Rb'', principal_n = 80, orbital_l = 0, total_j = 1/2, magnetic_m = 1/2\<rparr>]"
      "[NWindow 67 71, EnergyWindow 60 75]"]
  by auto

end
